theory Spec2Isabelle
  imports Complex_Main
begin

section \<open>Group testing: selectors and the Dorfman decoder\<close>

text \<open>
  A shallow embedding of the group selectors (\<^verbatim>\<open>split.py\<close>,
  \<^verbatim>\<open>informative_dorfman.py\<close>, \<^verbatim>\<open>mutual_information.py\<close>) and of the
  deterministic decoder (\<^verbatim>\<open>dorfman_decoder.py\<close>). Arrays are lists, a matrix is the
  list of its rows, floating-point numbers are real numbers, and every exception the code
  can raise is a value of type \<open>error\<close>.
\<close>

subsection \<open>Errors and the session state\<close>

datatype error = ValueError | IndexError | UnboundLocalError | ZeroDivisionError

text \<open>
  The session state is the object every selector reads and mutates. Its class is not among
  the sources; the record holds the attributes the selectors use. A queued group carries
  the \<^verbatim>\<open>results_need_clearing\<close> flag it was queued with.
\<close>

record state =
  num_patients :: nat
  max_group_size :: nat
  extra_tests_needed :: nat
  prior_infection_rate :: "real list"
  prior_sensitivity :: "real list"
  prior_specificity :: "real list"
  particle_weights :: "real list"
  particles :: "bool list list"
  past_groups :: "bool list list"
  past_test_results :: "bool list"
  to_clear_positives :: "nat list"
  groups_to_test :: "(bool list \<times> bool) list"
  all_cleared :: bool

text \<open>
  Modelled from the spec: \<^verbatim>\<open>state.add_groups_to_test(group_batch, results_need_clearing)\<close>
  is a method of the state class, which is missing from the sources. The spec says a
  selector "pushes" its new groups "into the state's pending-test queue": the rows of the
  batch are appended to the queue, in order, each with the flag.
\<close>

definition add_groups_to_test :: "bool list list \<Rightarrow> bool \<Rightarrow> state \<Rightarrow> state" where
  "add_groups_to_test group_batch results_need_clearing s =
     s\<lparr>groups_to_test := groups_to_test s @ map (\<lambda>g. (g, results_need_clearing)) group_batch\<rparr>"

subsection \<open>Array operations of numpy used by the code\<close>

text \<open>\<^verbatim>\<open>np.sum(v)\<close> of a boolean vector: the number of its true entries.\<close>

definition count_true :: "bool list \<Rightarrow> nat" where
  "count_true v = length (filter id v)"

text \<open>\<^verbatim>\<open>m[mask, :]\<close>: the rows of \<open>m\<close> whose mask entry is true (the mask as long as \<open>m\<close>).\<close>

definition mask_rows :: "'a list \<Rightarrow> bool list \<Rightarrow> 'a list" where
  "mask_rows m msk = map fst (filter snd (zip m msk))"

text \<open>
  \<^verbatim>\<open>np.sum(m, axis=0)\<close> of a boolean matrix with \<open>n\<close> columns: for each column, the number
  of rows that are true there. The number of columns is an argument, since a numpy array
  with no rows still has its columns.
\<close>

definition sum_axis0 :: "nat \<Rightarrow> bool list list \<Rightarrow> nat list" where
  "sum_axis0 n m = map (\<lambda>j. length (filter (\<lambda>row. row ! j) m)) [0..<n]"

text \<open>\<^verbatim>\<open>ids, = np.where(v)\<close>: the indices of the true entries, ascending.\<close>

definition np_where :: "bool list \<Rightarrow> nat list" where
  "np_where v = filter (\<lambda>i. v ! i) [0..<length v]"

text \<open>\<^verbatim>\<open>jax.nn.one_hot(ids, n)\<close> as booleans: one row of \<open>n\<close> columns per index.\<close>

definition one_hot :: "nat list \<Rightarrow> nat \<Rightarrow> bool list list" where
  "one_hot ids n = map (\<lambda>i. map (\<lambda>j. j = i) [0..<n]) ids"

subsection \<open>The fixed two-stage selector\<close>

text \<open>
  \<^verbatim>\<open>TwoDDorfmanPostSelector.__call__\<close>. The boolean mask \<^verbatim>\<open>past_test_results\<close> must be as
  long as \<^verbatim>\<open>past_groups\<close> has rows (numpy raises IndexError otherwise); the columns of
  \<^verbatim>\<open>past_groups\<close> are those of its first row. The logging calls have no effect on the state.
\<close>

definition TwoDDorfmanPostSelector :: "state \<Rightarrow> error + state" where
  "TwoDDorfmanPostSelector s =
     (let num_rows = 8; num_cols = 12 in
      if length (past_groups s) = num_rows + num_cols then
        if length (past_test_results s) \<noteq> length (past_groups s) then Inl IndexError
        else
          let returned_positive =
                sum_axis0 (length (hd (past_groups s)))
                  (mask_rows (past_groups s) (past_test_results s));
              total_positive_first_block = count_true (take num_rows (past_test_results s));
              total_positive_second_block =
                count_true (take num_cols (drop num_rows (past_test_results s)));
              reflex_to_test =
                (if (total_positive_first_block > 0) \<noteq> (total_positive_second_block > 0)
                 then np_where (map (\<lambda>c. c \<noteq> 0) returned_positive)
                 else np_where (map (\<lambda>c. c > 1) returned_positive));
              new_groups = one_hot reflex_to_test (num_patients s)
          in Inr (add_groups_to_test new_groups False s)
      else Inr (s\<lparr>all_cleared := True\<rparr>))"

text \<open>
  The 8 x 12 assay matrix of the first stage: patient \<open>12 * r + c\<close> sits in row \<open>r\<close> and
  column \<open>c\<close>; 8 row groups are followed by 12 column groups. A state after a first round
  in which all 20 groups came back negative.
\<close>

definition assay_groups :: "bool list list" where
  "assay_groups =
     map (\<lambda>r. map (\<lambda>p. p div 12 = r) [0..<96]) [0..<8] @
     map (\<lambda>c. map (\<lambda>p. p mod 12 = c) [0..<96]) [0..<12]"

definition all_negative_state :: state where
  "all_negative_state =
     \<lparr>num_patients = 96, max_group_size = 12, extra_tests_needed = 20,
      prior_infection_rate = [0.05], prior_sensitivity = [1], prior_specificity = [1],
      particle_weights = [], particles = [],
      past_groups = assay_groups, past_test_results = replicate 20 False,
      to_clear_positives = [], groups_to_test = [], all_cleared = False\<rparr>"

subsection \<open>The Dorfman decoder\<close>

text \<open>
  The sampler object keeps \<^verbatim>\<open>particle_weights\<close> and \<^verbatim>\<open>particles\<close>; the decoder sets both.
  The field names carry a prefix because the state has attributes of the same names.
\<close>

record sampler =
  sampler_particle_weights :: "real list"
  sampler_particles :: "real list list"

text \<open>
  \<^verbatim>\<open>DorfmanDecoder.produce_sample\<close>. \<^verbatim>\<open>ind_tests\<close> marks the past groups with exactly one
  patient that tested positive; the marginal is the column sum of these groups. The history
  is taken to be well formed: one result per past group, every group with \<^verbatim>\<open>num_patients\<close>
  columns. For other shapes the array operations fail (or broadcast), which the model
  reports as an IndexError.
\<close>

definition produce_sample :: "state \<Rightarrow> sampler \<Rightarrow> error + sampler" where
  "produce_sample s self =
     (let tests = past_test_results s;
          groups = past_groups s
      in if length tests \<noteq> length groups \<or> (\<exists>g \<in> set groups. length g \<noteq> num_patients s)
         then Inl IndexError
         else
           let ind_tests = map2 (\<lambda>g t. count_true g = 1 \<and> t) groups tests;
               marginal =
                 (if count_true ind_tests \<noteq> 0
                  then map real (sum_axis0 (num_patients s) (mask_rows groups ind_tests))
                  else replicate (num_patients s) 0)
           in Inr (self\<lparr>sampler_particle_weights := [1], sampler_particles := [marginal]\<rparr>))"

text \<open>A history in which patient 0 was tested alone twice, positive both times.\<close>

definition retested_state :: state where
  "retested_state =
     \<lparr>num_patients = 3, max_group_size = 3, extra_tests_needed = 1,
      prior_infection_rate = [0.05], prior_sensitivity = [1], prior_specificity = [1],
      particle_weights = [], particles = [],
      past_groups = [[True, False, False], [True, False, False]],
      past_test_results = [True, True],
      to_clear_positives = [], groups_to_test = [], all_cleared = False\<rparr>"

text \<open>The history of the spec's example: groups of sizes 1 and 2, both positive.\<close>

definition example_state :: state where
  "example_state =
     \<lparr>num_patients = 3, max_group_size = 3, extra_tests_needed = 1,
      prior_infection_rate = [0.05], prior_sensitivity = [1], prior_specificity = [1],
      particle_weights = [], particles = [],
      past_groups = [[True, False, False], [False, True, True]],
      past_test_results = [True, True],
      to_clear_positives = [], groups_to_test = [], all_cleared = False\<rparr>"

text \<open>
  The number of past tests of patient \<open>j\<close> alone that came back positive: the groups with
  exactly one member, a positive result, and \<open>j\<close> as the member.
\<close>

definition positive_single_tests :: "bool list list \<Rightarrow> bool list \<Rightarrow> nat \<Rightarrow> nat" where
  "positive_single_tests groups tests j =
     length (filter (\<lambda>(g, t). count_true g = 1 \<and> t \<and> g ! j) (zip groups tests))"

text \<open>A decoder that has not produced a sample yet.\<close>

definition fresh_sampler :: sampler where
  "fresh_sampler = \<lparr>sampler_particle_weights = [], sampler_particles = []\<rparr>"

subsection \<open>The split selectors\<close>

text \<open>
  \<^verbatim>\<open>onp.array_split(ary, n)\<close> for a number of sections \<open>n\<close>, as numpy defines it: it
  raises ValueError unless \<open>0 < n\<close>; otherwise the first \<open>len(ary) mod n\<close> sections have
  \<open>len(ary) div n + 1\<close> elements and the others \<open>len(ary) div n\<close>, so that sections are
  empty when \<open>n\<close> is larger than \<open>len(ary)\<close>.
\<close>

fun split_at_sizes :: "'a list \<Rightarrow> nat list \<Rightarrow> 'a list list" where
  "split_at_sizes ary [] = []"
| "split_at_sizes ary (k # ks) = take k ary # split_at_sizes (drop k ary) ks"

definition array_split :: "'a list \<Rightarrow> int \<Rightarrow> error + 'a list list" where
  "array_split ary sections =
     (if sections \<le> 0 then Inl ValueError
      else
        let Ntotal = length ary;
            Nsections = nat sections;
            Neach_section = Ntotal div Nsections;
            extras = Ntotal mod Nsections;
            section_sizes = replicate extras (Neach_section + 1) @
                            replicate (Nsections - extras) Neach_section
        in Inr (split_at_sizes ary section_sizes))"

text \<open>
  A row of \<open>n\<close> zeros with \<^verbatim>\<open>row[indices] = True\<close> assigned: true exactly at the given
  indices.
\<close>

definition group_of_indices :: "nat \<Rightarrow> nat list \<Rightarrow> bool list" where
  "group_of_indices n indices = map (\<lambda>p. p \<in> set indices) [0..<n]"

text \<open>
  \<^verbatim>\<open>SplitSelector.get_groups\<close>; \<open>self_split_factor\<close> is the attribute set by the
  constructor, \<open>None\<close> when unset. Python's \<^verbatim>\<open>-(-a // b)\<close> on integers is \<open>- (- a div b)\<close>,
  and raises ZeroDivisionError when \<open>b\<close> is 0.

  When the factor is unset, the prior infection rate must be a single number. The group
  size \<^verbatim>\<open>1 + ceil(1 / sqrt(rate))\<close> is computed on real numbers here. A rate of 0 makes it
  infinite, hence capped at \<^verbatim>\<open>max_group_size\<close>; a negative rate makes it NaN, which
  \<^verbatim>\<open>array_split\<close> cannot convert to a number of sections (ValueError); an empty rate
  array has no truth value in the comparison made by \<^verbatim>\<open>min\<close> (ValueError).
\<close>

definition SplitSelector_get_groups :: "int option \<Rightarrow> state \<Rightarrow> error + bool list list" where
  "SplitSelector_get_groups self_split_factor s =
     (let split_factor =
            (case self_split_factor of
               None \<Rightarrow>
                 if length (prior_infection_rate s) > 1 then Inl ValueError
                 else if prior_infection_rate s = [] then Inl ValueError
                 else
                   let rate = hd (prior_infection_rate s) in
                   if rate < 0 then Inl ValueError
                   else
                     let group_size =
                           (if rate = 0 then int (max_group_size s)
                            else min (1 + \<lceil>1 / sqrt rate\<rceil>) (int (max_group_size s)))
                     in if group_size = 0 then Inl ZeroDivisionError
                        else Inr (- (- int (num_patients s) div group_size))
             | Some factor \<Rightarrow>
                 if max_group_size s = 0 then Inl ZeroDivisionError
                 else
                   let min_splits = - (- int (num_patients s) div int (max_group_size s))
                   in Inr (max factor min_splits))
      in case split_factor of
           Inl e \<Rightarrow> Inl e
         | Inr split_factor \<Rightarrow>
             (case array_split [0..<num_patients s] split_factor of
                Inl e \<Rightarrow> Inl e
              | Inr indices \<Rightarrow> Inr (map (group_of_indices (num_patients s)) indices)))"

text \<open>\<^verbatim>\<open>SplitSelector.__call__\<close>.\<close>

definition SplitSelector :: "int option \<Rightarrow> state \<Rightarrow> error + state" where
  "SplitSelector self_split_factor s =
     (case SplitSelector_get_groups self_split_factor s of
        Inl e \<Rightarrow> Inl e
      | Inr new_groups \<Rightarrow> Inr (add_groups_to_test new_groups True s))"

text \<open>
  \<^verbatim>\<open>SplitPositive._split_groups\<close>: the loop over the rows of \<open>groups\<close>, with the batch built
  so far and the variable \<^verbatim>\<open>newg\<close>, which is unassigned (\<open>None\<close>) until the first group of
  more than one patient has been split. A group of at most one patient leaves \<^verbatim>\<open>newg\<close> as
  it is, and the concatenation that follows reads it.
\<close>

fun split_groups_loop ::
  "int option \<Rightarrow> bool list list \<Rightarrow> bool list list \<Rightarrow> bool list list option
     \<Rightarrow> error + bool list list" where
  "split_groups_loop self_split_factor [] new_groups newg = Inr new_groups"
| "split_groups_loop self_split_factor (group_i # rest) new_groups newg =
     (if count_true group_i > 1 then
        let indices = np_where group_i;
            use_split_factor =
              (case self_split_factor of
                 None \<Rightarrow> int (length indices)
               | Some factor \<Rightarrow> factor)
        in case array_split indices use_split_factor of
             Inl e \<Rightarrow> Inl e
           | Inr indices \<Rightarrow>
               let newg = map (group_of_indices (length group_i)) indices
               in split_groups_loop self_split_factor rest (new_groups @ newg) (Some newg)
      else
        case newg of
          None \<Rightarrow> Inl UnboundLocalError
        | Some g \<Rightarrow> split_groups_loop self_split_factor rest (new_groups @ g) newg)"

definition split_groups :: "int option \<Rightarrow> bool list list \<Rightarrow> error + bool list list" where
  "split_groups self_split_factor groups = split_groups_loop self_split_factor groups [] None"

text \<open>
  \<^verbatim>\<open>SplitPositive.get_groups\<close>; the result \<open>None\<close> is Python's \<^verbatim>\<open>None\<close>, returned when
  there is nothing to split. \<^verbatim>\<open>to_clear_positives\<close> holds indices of past groups, as the
  spec describes it; an index that is not a row of \<^verbatim>\<open>past_groups\<close> is an IndexError.
  \<^verbatim>\<open>np.size\<close> of a matrix is the number of its entries.
\<close>

definition np_size2 :: "'a list list \<Rightarrow> nat" where
  "np_size2 m = (case m of [] \<Rightarrow> 0 | row # _ \<Rightarrow> length m * length row)"

definition SplitPositive_get_groups ::
  "int option \<Rightarrow> state \<Rightarrow> error + bool list list option" where
  "SplitPositive_get_groups self_split_factor s =
     (if np_size2 (past_groups s) > 0 \<and> length (to_clear_positives s) > 0 then
        if \<exists>i \<in> set (to_clear_positives s). i \<ge> length (past_groups s) then Inl IndexError
        else
          let to_split = map (\<lambda>i. past_groups s ! i) (to_clear_positives s);
              to_split = filter (\<lambda>g. count_true g > 1) to_split
          in if np_size2 to_split > 0
             then map_sum id Some (split_groups self_split_factor to_split)
             else Inr None
      else Inr None)"

text \<open>
  \<^verbatim>\<open>SplitPositive.__call__\<close>. \<^verbatim>\<open>state.update_to_clear_positives()\<close> is a method of the
  missing state class; it is the parameter \<open>update_to_clear_positives\<close> here.
\<close>

definition SplitPositive :: "(state \<Rightarrow> state) \<Rightarrow> int option \<Rightarrow> state \<Rightarrow> error + state" where
  "SplitPositive update_to_clear_positives self_split_factor s =
     (case SplitPositive_get_groups self_split_factor s of
        Inl e \<Rightarrow> Inl e
      | Inr (Some new_groups) \<Rightarrow>
          Inr (update_to_clear_positives (add_groups_to_test new_groups True s))
      | Inr None \<Rightarrow> Inr (s\<lparr>all_cleared := True\<rparr>))"

text \<open>
  Three patients with room for groups of three, and a state in which the positive group of
  patients 0 and 2 is waiting to be split.
\<close>

definition three_patients :: state where
  "three_patients =
     \<lparr>num_patients = 3, max_group_size = 3, extra_tests_needed = 1,
      prior_infection_rate = [0.05], prior_sensitivity = [1], prior_specificity = [1],
      particle_weights = [], particles = [],
      past_groups = [], past_test_results = [],
      to_clear_positives = [], groups_to_test = [], all_cleared = False\<rparr>"

definition pending_pair :: state where
  "pending_pair =
     \<lparr>num_patients = 3, max_group_size = 3, extra_tests_needed = 1,
      prior_infection_rate = [0.05], prior_sensitivity = [1], prior_specificity = [1],
      particle_weights = [], particles = [],
      past_groups = [[True, False, True]], past_test_results = [True],
      to_clear_positives = [0], groups_to_test = [], all_cleared = False\<rparr>"

section \<open>Properties\<close>

subsection \<open>The fixed two-stage selector on an all-negative first round\<close>

lemma add_no_groups: "add_groups_to_test [] flag s = s"
  by (simp add: add_groups_to_test_def)

lemma TwoDD_all_negative:
  assumes "length (past_groups s) = 20"
    and "length (past_test_results s) = 20"
    and "\<forall>r \<in> set (past_test_results s). \<not> r"
  shows "TwoDDorfmanPostSelector s = Inr s"
proof -
  have m: "mask_rows (past_groups s) (past_test_results s) = []"
    using assms(3) by (auto simp: mask_rows_def filter_empty_conv dest: set_zip_rightD)
  have c1: "count_true (take 8 (past_test_results s)) = 0"
    using assms(3) by (auto simp: count_true_def filter_empty_conv dest: in_set_takeD)
  have c2: "count_true (take 12 (drop 8 (past_test_results s))) = 0"
    using assms(3)
    by (auto simp: count_true_def filter_empty_conv dest!: in_set_takeD in_set_dropD)
  show ?thesis
    using assms(1,2)
    by (simp add: TwoDDorfmanPostSelector_def Let_def m c1 c2 sum_axis0_def
        np_where_def filter_empty_conv one_hot_def add_no_groups)
qed

lemma TwoDD_other_count:
  "length (past_groups s) \<noteq> 20 \<Longrightarrow> TwoDDorfmanPostSelector s = Inr (s\<lparr>all_cleared := True\<rparr>)"
  by (simp add: TwoDDorfmanPostSelector_def)

text \<open>
  With 20 past groups the selector never touches \<open>all_cleared\<close>, whatever the results: the
  assignment is in the other branch only.
\<close>

lemma TwoDD_twenty_keeps_all_cleared:
  "length (past_groups s) = 20 \<Longrightarrow> TwoDDorfmanPostSelector s = Inr s' \<Longrightarrow>
     all_cleared s' = all_cleared s"
  by (auto simp: TwoDDorfmanPostSelector_def Let_def add_groups_to_test_def split: if_splits)

text \<open>
  After an all-negative round the returned state is the state that came in, so a second call
  sees the same 20 past groups and does the same again.
\<close>

lemma TwoDD_all_negative_again:
  assumes "length (past_groups s) = 20"
    and "length (past_test_results s) = 20"
    and "\<forall>r \<in> set (past_test_results s). \<not> r"
    and "TwoDDorfmanPostSelector s = Inr s'"
  shows "TwoDDorfmanPostSelector s' = Inr s"
  using TwoDD_all_negative [OF assms(1-3)] assms(4) by simp

text \<open>
  Claim C1: for every state whose \<open>past_groups\<close> has exactly 20 groups (8 row groups, then
  12 column groups) and whose past test results are all negative, a call to the selector
  sets \<open>all_cleared\<close> to true and queues no new groups. The code does not do this. On the
  all-negative first round of the 8 x 12 assay, with \<open>all_cleared\<close> false, the selector
  takes the branch for 20 past groups, queues the empty batch and returns the state as it
  was: nothing is queued, and \<open>all_cleared\<close> is still false.
\<close>

theorem TwoDDorfmanPostSelector_all_negative_not_cleared:
  "length (past_groups all_negative_state) = 20 \<and>
   past_test_results all_negative_state = replicate 20 False \<and>
   TwoDDorfmanPostSelector all_negative_state = Inr all_negative_state \<and>
   groups_to_test all_negative_state = [] \<and>
   \<not> all_cleared all_negative_state"
proof -
  have "TwoDDorfmanPostSelector all_negative_state = Inr all_negative_state"
    by (rule TwoDD_all_negative) (simp_all add: all_negative_state_def assay_groups_def)
  then show ?thesis
    by (simp add: all_negative_state_def assay_groups_def)
qed

subsection \<open>The Dorfman decoder\<close>

lemma mask_rows_column_count:
  "length (filter (\<lambda>row. row ! j) (mask_rows groups (map2 (\<lambda>g t. P g \<and> t) groups tests))) =
   length (filter (\<lambda>(g, t). P g \<and> t \<and> g ! j) (zip groups tests))"
proof (induction groups arbitrary: tests)
  case Nil
  then show ?case by (simp add: mask_rows_def)
next
  case (Cons g groups)
  then show ?case
    by (cases tests) (auto simp: mask_rows_def)
qed

lemma no_selected_no_count:
  assumes "count_true (map2 (\<lambda>g t. P g \<and> t) groups tests) = 0"
  shows "length (filter (\<lambda>(g, t). P g \<and> t \<and> g ! j) (zip groups tests)) = 0"
proof -
  have h: "\<not> (P g \<and> t)" if "(g, t) \<in> set (zip groups tests)" for g t
    using assms that by (force simp: count_true_def filter_empty_conv)
  have "\<not> (case x of (g, t) \<Rightarrow> P g \<and> t \<and> g ! j)" if "x \<in> set (zip groups tests)" for x
  proof (cases x)
    case (Pair g t)
    with that h [of g t] show ?thesis by auto
  qed
  then show ?thesis
    unfolding length_0_conv filter_empty_conv by blast
qed

text \<open>
  Claim C4, as stated, fails. When patient 0 was tested alone twice and both tests were
  positive, the marginal at patient 0 is 2, not 1: the decoder adds up the selected groups.
\<close>

theorem produce_sample_counterexample:
  "produce_sample retested_state fresh_sampler =
     Inr \<lparr>sampler_particle_weights = [1], sampler_particles = [[2, 0, 0]]\<rparr>"
  by (simp add: produce_sample_def retested_state_def Let_def count_true_def mask_rows_def
      sum_axis0_def upt_rec fresh_sampler_def)

text \<open>
  Claim C4, amended. For every well-formed past-test history (one result per past group,
  every group over \<open>num_patients\<close> patients), the decoder sets the weights to the singleton
  \<open>[1]\<close> and produces a single particle, the marginal, whose value at each patient is the
  number of past groups of size exactly 1 that tested positive and contain the patient: 0
  at a patient who is in no such group, 1 at a patient who is in exactly one.
\<close>

theorem produce_sample_counts:
  assumes "length (past_test_results s) = length (past_groups s)"
    and "\<forall>g \<in> set (past_groups s). length g = num_patients s"
  shows "\<exists>marginal.
           produce_sample s self =
             Inr (self\<lparr>sampler_particle_weights := [1], sampler_particles := [marginal]\<rparr>) \<and>
           length marginal = num_patients s \<and>
           (\<forall>j < num_patients s.
              marginal ! j =
                real (positive_single_tests (past_groups s) (past_test_results s) j))"
proof (cases "count_true (map2 (\<lambda>g t. count_true g = 1 \<and> t) (past_groups s) (past_test_results s)) = 0")
  case True
  have "positive_single_tests (past_groups s) (past_test_results s) j = 0" for j
    unfolding positive_single_tests_def using True by (rule no_selected_no_count)
  with True assms show ?thesis
    by (intro exI [of _ "replicate (num_patients s) 0"]) (simp add: produce_sample_def Let_def)
next
  case False
  with assms show ?thesis
    by (intro exI [of _ "map real (sum_axis0 (num_patients s) (mask_rows (past_groups s)
          (map2 (\<lambda>g t. count_true g = 1 \<and> t) (past_groups s) (past_test_results s))))"])
      (simp add: produce_sample_def Let_def sum_axis0_def positive_single_tests_def
        mask_rows_column_count)
qed

theorem produce_sample_counts_witness:
  "produce_sample example_state fresh_sampler =
     Inr \<lparr>sampler_particle_weights = [1], sampler_particles = [[1, 0, 0]]\<rparr>"
proof -
  have a: "length (past_test_results example_state) = length (past_groups example_state)"
    by (simp add: example_state_def)
  have b: "\<forall>g \<in> set (past_groups example_state). length g = num_patients example_state"
    by (simp add: example_state_def)
  from produce_sample_counts [OF a b, of fresh_sampler]
  obtain marginal where
    r: "produce_sample example_state fresh_sampler =
          Inr (fresh_sampler\<lparr>sampler_particle_weights := [1], sampler_particles := [marginal]\<rparr>)"
    and l: "length marginal = num_patients example_state"
    and v: "\<forall>j < num_patients example_state.
         marginal ! j =
           real (positive_single_tests (past_groups example_state)
                   (past_test_results example_state) j)"
    by blast
  have n: "num_patients example_state = 3"
    by (simp add: example_state_def)
  have "marginal ! 0 = 1" "marginal ! 1 = 0" "marginal ! 2 = 0"
    using v by (simp_all add: n positive_single_tests_def example_state_def count_true_def)
  with l n have "marginal = [1, 0, 0]"
    by (simp add: list_eq_iff_nth_eq less_Suc_eq numeral_3_eq_3 numeral_2_eq_2)
  with r show ?thesis
    by (simp add: fresh_sampler_def)
qed

end
